theory Spec2Isabelle
  imports Complex_Main "HOL-Library.Sublist"
begin

section \<open>Python values that reach the normalizer\<close>

text \<open>
  \<^verbatim>\<open>response.json()\<close> yields the Python image of a JSON document: \<^verbatim>\<open>None\<close>, a bool,
  an int, a float, a str, a list or a dict. A dict is kept as the list of its items and read
  with \<open>map_of\<close>. A float is kept as the rational it denotes.
\<close>

datatype json =
    JNull
  | JBool bool
  | JInt int
  | JFloat rat
  | JStr string
  | JArr "json list"
  | JObj "(string \<times> json) list"

text \<open>The exceptions that the code under study can raise or let through.\<close>

datatype pyexc =
    ValueError string
  | KeyError json
  | TypeError
  | AttributeError
  | ConnectionError
  | LoginTimeoutError string
  | LoginCredentialsError string

text \<open>Sequencing of computations that may raise: the first exception wins.\<close>

definition exc_bind :: "pyexc + 'a \<Rightarrow> ('a \<Rightarrow> pyexc + 'b) \<Rightarrow> pyexc + 'b" where
  "exc_bind m f = (case m of Inl e \<Rightarrow> Inl e | Inr x \<Rightarrow> f x)"

text \<open>Python truthiness, as \<^verbatim>\<open>if v:\<close> tests it.\<close>

fun truthy :: "json \<Rightarrow> bool" where
  "truthy JNull = False"
| "truthy (JBool b) = b"
| "truthy (JInt i) = (i \<noteq> 0)"
| "truthy (JFloat q) = (q \<noteq> 0)"
| "truthy (JStr s) = (s \<noteq> [])"
| "truthy (JArr xs) = (xs \<noteq> [])"
| "truthy (JObj kvs) = (kvs \<noteq> [])"

text \<open>\<^verbatim>\<open>v.get(k)\<close>: only a dict has the method; a missing key gives \<^verbatim>\<open>None\<close>.\<close>

fun dict_get :: "json \<Rightarrow> string \<Rightarrow> pyexc + json" where
  "dict_get (JObj kvs) k = Inr (case map_of kvs k of None \<Rightarrow> JNull | Some v \<Rightarrow> v)"
| "dict_get _ k = Inl AttributeError"

text \<open>
  \<^verbatim>\<open>v[k]\<close> with a str key: a dict raises \<^verbatim>\<open>KeyError\<close> on a missing key, every other
  value raises \<^verbatim>\<open>TypeError\<close>.
\<close>

fun subscript :: "json \<Rightarrow> string \<Rightarrow> pyexc + json" where
  "subscript (JObj kvs) k = (case map_of kvs k of None \<Rightarrow> Inl (KeyError (JStr k)) | Some v \<Rightarrow> Inr v)"
| "subscript _ k = Inl TypeError"

section \<open>The HTTP response and the Result contract\<close>

text \<open>
  What the code reads of a \<^verbatim>\<open>requests\<close> response: \<^verbatim>\<open>status_code\<close>,
  \<^verbatim>\<open>request.method\<close>, \<^verbatim>\<open>text\<close> and \<^verbatim>\<open>json()\<close>. The JSON decoder belongs to the
  library, so its outcome on the body is a field: \<open>Inl msg\<close> when decoding raises
  \<^verbatim>\<open>ValueError\<close> with description \<open>msg\<close>, \<open>Inr j\<close> when it returns \<open>j\<close>.
\<close>

record http_response =
  resp_status_code :: int
  resp_method :: string
  resp_text :: string
  resp_json :: "string + json"

text \<open>\<^verbatim>\<open>response.ok\<close> of the library: false exactly for the statuses 400 to 599.\<close>

definition resp_ok :: "http_response \<Rightarrow> bool" where
  "resp_ok resp = (\<not> (400 \<le> resp_status_code resp \<and> resp_status_code resp < 600))"

definition response_json :: "http_response \<Rightarrow> pyexc + json" where
  "response_json resp = (case resp_json resp of Inl msg \<Rightarrow> Inl (ValueError msg) | Inr j \<Rightarrow> Inr j)"

text \<open>The \<^verbatim>\<open>error\<close> field holds a value, or the caught exception object itself.\<close>

datatype errval = ErrVal json | ErrExc pyexc

record result =
  ok :: bool
  status_code :: int
  error :: errval
  reason :: json
  data :: json
  response :: http_response

definition Result :: "bool \<Rightarrow> int \<Rightarrow> json \<Rightarrow> errval \<Rightarrow> json \<Rightarrow> http_response \<Rightarrow> result" where
  "Result ok' status_code' reason' error' data' response' =
     \<lparr>ok = ok', status_code = status_code', error = error', reason = reason',
      data = data', response = response'\<rparr>"

section \<open>Status tables\<close>

definition HTTP_SUCCESS_CODES :: "int \<rightharpoonup> string" where
  "HTTP_SUCCESS_CODES = map_of [(200, ''Success'')]"

definition HTTP_ERROR_CODES :: "int \<rightharpoonup> string" where
  "HTTP_ERROR_CODES = map_of
     [(400, ''Bad Request''),
      (403, ''Forbidden''),
      (404, ''API Not found''),
      (406, ''Not Acceptable Response''),
      (415, ''Unsupported Media Type''),
      (500, ''Internal Server Error'')]"

definition HTTP_RESPONSE_CODES :: "int \<rightharpoonup> string" where
  "HTTP_RESPONSE_CODES = (Map.empty ++ HTTP_SUCCESS_CODES) ++ HTTP_ERROR_CODES"

text \<open>\<^verbatim>\<open>HTTP_RESPONSE_CODES[code]\<close>, with the \<^verbatim>\<open>KeyError\<close> of a missing key.\<close>

definition code_phrase :: "int \<Rightarrow> pyexc + json" where
  "code_phrase code =
     (case HTTP_RESPONSE_CODES code of None \<Rightarrow> Inl (KeyError (JInt code)) | Some p \<Rightarrow> Inr (JStr p))"

section \<open>The response normalizer\<close>

definition parse_http_success :: "http_response \<Rightarrow> pyexc + result" where
  "parse_http_success resp =
     (if resp_method resp = ''GET'' then
        exc_bind (code_phrase (resp_status_code resp)) (\<lambda>phrase.
        exc_bind (response_json resp) (\<lambda>j.
        exc_bind (dict_get j ''data'') (\<lambda>d.
          if truthy d then
            exc_bind (subscript j ''data'') (\<lambda>json_response.
              Inr (Result (resp_ok resp) (resp_status_code resp) phrase
                     (ErrVal (JStr '''')) json_response resp))
          else
            exc_bind (dict_get j ''config'') (\<lambda>c.
              if truthy c then
                exc_bind (subscript j ''config'') (\<lambda>json_response.
                  Inr (Result (resp_ok resp) (resp_status_code resp) phrase
                         (ErrVal (JStr '''')) json_response resp))
              else
                exc_bind (dict_get j ''templateDefinition'') (\<lambda>t.
                  if truthy t then
                    exc_bind (subscript j ''templateDefinition'') (\<lambda>json_response.
                      Inr (Result (resp_ok resp) (resp_status_code resp) phrase
                             (ErrVal (JStr '''')) json_response resp))
                  else
                    exc_bind (code_phrase (resp_status_code resp)) (\<lambda>phrase'.
                      Inr (Result (resp_ok resp) (resp_status_code resp) phrase'
                             (ErrVal (JStr ''No data received from device'')) (JObj [])
                             resp)))))))
      else if resp_text resp = '''' then
        exc_bind (code_phrase (resp_status_code resp)) (\<lambda>phrase.
          Inr (Result (resp_ok resp) (resp_status_code resp) phrase
                 (ErrVal (JStr '''')) (JStr (resp_text resp)) resp))
      else
        exc_bind (code_phrase (resp_status_code resp)) (\<lambda>phrase.
        exc_bind (response_json resp) (\<lambda>j.
        exc_bind (dict_get j ''id'') (\<lambda>i.
          if truthy i then
            exc_bind (subscript j ''id'') (\<lambda>json_response.
              Inr (Result (resp_ok resp) (resp_status_code resp) phrase
                     (ErrVal (JStr '''')) json_response resp))
          else
            exc_bind (dict_get j ''data'') (\<lambda>d.
              if truthy d then
                exc_bind (subscript j ''data'') (\<lambda>json_response.
                  Inr (Result (resp_ok resp) (resp_status_code resp) phrase
                         (ErrVal (JStr '''')) json_response resp))
              else
                Inr (Result (resp_ok resp) (resp_status_code resp) phrase
                       (ErrVal (JStr '''')) (JStr (resp_text resp)) resp))))))"

text \<open>
  The \<^verbatim>\<open>try\<close> block reads \<^verbatim>\<open>response.json()['error']['details']\<close> and then
  \<^verbatim>\<open>response.json()['error']['message']\<close>; only a \<^verbatim>\<open>ValueError\<close> is caught.
\<close>

definition error_fields :: "http_response \<Rightarrow> pyexc + (json \<times> json)" where
  "error_fields resp =
     exc_bind (response_json resp) (\<lambda>j.
     exc_bind (subscript j ''error'') (\<lambda>e.
     exc_bind (subscript e ''details'') (\<lambda>details.
     exc_bind (subscript e ''message'') (\<lambda>message.
       Inr (details, message)))))"

definition parse_http_error :: "http_response \<Rightarrow> pyexc + result" where
  "parse_http_error resp =
     (case error_fields resp of
        Inr (details, message) \<Rightarrow>
          Inr (Result (resp_ok resp) (resp_status_code resp) details
                 (ErrVal message) (JObj []) resp)
      | Inl (ValueError msg) \<Rightarrow>
          exc_bind (code_phrase (resp_status_code resp)) (\<lambda>phrase.
            Inr (Result (resp_ok resp) (resp_status_code resp) phrase
                   (ErrExc (ValueError msg)) (JObj []) resp))
      | Inl e \<Rightarrow> Inl e)"

text \<open>
  \<^verbatim>\<open>parse_response\<close> has no \<^verbatim>\<open>else\<close>: a status in neither table falls off the end
  of the function, which returns \<^verbatim>\<open>None\<close>.
\<close>

definition parse_response :: "http_response \<Rightarrow> pyexc + result option" where
  "parse_response resp =
     (if HTTP_SUCCESS_CODES (resp_status_code resp) \<noteq> None then
        exc_bind (parse_http_success resp) (\<lambda>r. Inr (Some r))
      else if HTTP_ERROR_CODES (resp_status_code resp) \<noteq> None then
        exc_bind (parse_http_error resp) (\<lambda>r. Inr (Some r))
      else Inr None)"

section \<open>The HTTP verb dispatcher\<close>

text \<open>
  A call of the \<^verbatim>\<open>requests\<close> session, as the keyword arguments the dispatcher passes:
  the verb, \<^verbatim>\<open>url\<close>, \<^verbatim>\<open>headers\<close>, \<^verbatim>\<open>data\<close> (absent when the call passes none),
  \<^verbatim>\<open>files\<close> (likewise) and \<^verbatim>\<open>timeout\<close>. A payload is a dict of strings or a
  string (the output of \<^verbatim>\<open>json.dumps\<close>).
\<close>

datatype payload = Mapping "(string \<times> string) list" | Text string

record request =
  req_verb :: string
  req_url :: string
  req_headers :: "(string \<times> string) list"
  req_data :: "payload option"
  req_files :: "(string \<times> string) list option"
  req_timeout :: int

text \<open>
  The session object: the \<^verbatim>\<open>verify\<close> attribute the constructor may set, the network
  behind it (what each call answers: a response, or an exception of the library), and
  the calls issued through it so far. Every HTTP call leaves exactly one entry in \<open>sent\<close>.
\<close>

record http_session =
  sess_verify :: bool
  transport :: "request \<Rightarrow> pyexc + http_response"
  sent :: "request list"

definition session_call :: "http_session \<Rightarrow> request \<Rightarrow> http_session \<times> (pyexc + http_response)" where
  "session_call s rq = (s\<lparr>sent := sent s @ [rq]\<rparr>, transport s rq)"

definition default_headers :: "(string \<times> string) list" where
  "default_headers = [(''Connection'', ''keep-alive''), (''Content-Type'', ''application/json'')]"

definition Viptela_get ::
  "http_session \<Rightarrow> string \<Rightarrow> (string \<times> string) list option \<Rightarrow> int
   \<Rightarrow> http_session \<times> (pyexc + result option)" where
  "Viptela_get s url hdrs tmo =
     (let headers = (case hdrs of None \<Rightarrow> default_headers | Some h \<Rightarrow> h)
      in case session_call s
             \<lparr>req_verb = ''GET'', req_url = url, req_headers = headers, req_data = None,
              req_files = None, req_timeout = tmo\<rparr> of
           (s', out) \<Rightarrow> (s', exc_bind out parse_response))"

definition Viptela_put ::
  "http_session \<Rightarrow> string \<Rightarrow> (string \<times> string) list option \<Rightarrow> payload option \<Rightarrow> int
   \<Rightarrow> http_session \<times> (pyexc + result option)" where
  "Viptela_put s url hdrs dat tmo =
     (let headers = (case hdrs of None \<Rightarrow> default_headers | Some h \<Rightarrow> h);
          payload = (case dat of None \<Rightarrow> Mapping [] | Some d \<Rightarrow> d)
      in case session_call s
             \<lparr>req_verb = ''PUT'', req_url = url, req_headers = headers, req_data = Some payload,
              req_files = None, req_timeout = tmo\<rparr> of
           (s', out) \<Rightarrow> (s', exc_bind out parse_response))"

definition Viptela_post ::
  "http_session \<Rightarrow> string \<Rightarrow> (string \<times> string) list option \<Rightarrow> payload option \<Rightarrow> int
   \<Rightarrow> http_session \<times> (pyexc + result option)" where
  "Viptela_post s url hdrs dat tmo =
     (let headers = (case hdrs of None \<Rightarrow> default_headers | Some h \<Rightarrow> h);
          payload = (case dat of None \<Rightarrow> Mapping [] | Some d \<Rightarrow> d)
      in case session_call s
             \<lparr>req_verb = ''POST'', req_url = url, req_headers = headers, req_data = Some payload,
              req_files = None, req_timeout = tmo\<rparr> of
           (s', out) \<Rightarrow> (s', exc_bind out parse_response))"

text \<open>The upload computes a default payload too, but does not pass \<^verbatim>\<open>data\<close> on.\<close>

definition Viptela_upload ::
  "http_session \<Rightarrow> string \<Rightarrow> (string \<times> string) list \<Rightarrow> (string \<times> string) list option
   \<Rightarrow> payload option \<Rightarrow> int \<Rightarrow> http_session \<times> (pyexc + result option)" where
  "Viptela_upload s url files hdrs dat tmo =
     (let headers = (case hdrs of None \<Rightarrow> [(''Accept-Encoding'', ''gzip'')] | Some h \<Rightarrow> h);
          payload = (case dat of None \<Rightarrow> Mapping [] | Some d \<Rightarrow> d)
      in case session_call s
             \<lparr>req_verb = ''POST'', req_url = url, req_headers = headers, req_data = None,
              req_files = Some files, req_timeout = tmo\<rparr> of
           (s', out) \<Rightarrow> (s', exc_bind out parse_response))"

text \<open>The body of the delete ends in \<^verbatim>\<open>pass\<close>: no call, and the return value is \<^verbatim>\<open>None\<close>.\<close>

definition Viptela_delete ::
  "http_session \<Rightarrow> string \<Rightarrow> (string \<times> string) list option \<Rightarrow> payload option \<Rightarrow> int
   \<Rightarrow> http_session \<times> (pyexc + result option)" where
  "Viptela_delete s url hdrs dat tmo =
     (let headers = (case hdrs of None \<Rightarrow> default_headers | Some h \<Rightarrow> h);
          payload = (case dat of None \<Rightarrow> Mapping [] | Some d \<Rightarrow> d)
      in (s, Inr None))"

section \<open>The client and its session\<close>

record viptela =
  user :: string
  user_pass :: string
  vmanage_server :: string
  vmanage_server_port :: int
  verify :: bool
  timeout :: int
  disable_warnings :: bool
  auto_login :: bool
  base_url :: string
  session :: http_session
  login_result :: "result option"

text \<open>
  The \<^verbatim>\<open>try\<close> spans the whole of the post, normalizer included, and catches the
  library's \<^verbatim>\<open>ConnectionError\<close> only. When the normalizer returned \<^verbatim>\<open>None\<close>, the
  attribute access \<^verbatim>\<open>login_result.response\<close> raises \<^verbatim>\<open>AttributeError\<close>.
\<close>

definition login :: "viptela \<Rightarrow> viptela \<times> (pyexc + result)" where
  "login self =
     (case Viptela_post (session self) (base_url self @ ''/j_security_check'')
             (Some [(''Content-Type'', ''application/x-www-form-urlencoded'')])
             (Some (Mapping [(''j_username'', user self), (''j_password'', user_pass self)]))
             (timeout self) of
        (s', out) \<Rightarrow>
          (self\<lparr>session := s'\<rparr>,
           case out of
             Inl ConnectionError \<Rightarrow>
               Inl (LoginTimeoutError (''Could not connect to '' @ vmanage_server self))
           | Inl e \<Rightarrow> Inl e
           | Inr None \<Rightarrow> Inl AttributeError
           | Inr (Some res) \<Rightarrow>
               if prefix ''<html>'' (resp_text (response res))
               then Inl (LoginCredentialsError ''Could not login to device, check user credentials'')
               else Inr res))"

text \<open>
  \<^verbatim>\<open>get_device_by_type\<close> checks its argument first; the GET uses the dispatcher's
  default timeout of 10.
\<close>

definition get_device_by_type :: "viptela \<Rightarrow> string \<Rightarrow> viptela \<times> (pyexc + result option)" where
  "get_device_by_type self device_type =
     (if device_type \<notin> set [''vedges'', ''controllers'']
      then (self, Inl (ValueError (''Invalid device type: '' @ device_type)))
      else case Viptela_get (session self) (base_url self @ ''/system/device/'' @ device_type)
                  None 10 of
             (s', out) \<Rightarrow> (self\<lparr>session := s'\<rparr>, out))"

section \<open>Sample responses and a sample client\<close>

definition resp_data_list :: http_response where
  \<open>resp_data_list =
     \<lparr>resp_status_code = 200, resp_method = ''GET'', resp_text = ''{"data": [1]}'',
      resp_json = Inr (JObj [(''data'', JArr [JInt 1])])\<rparr>\<close>

definition resp_data_empty :: http_response where
  \<open>resp_data_empty =
     \<lparr>resp_status_code = 200, resp_method = ''GET'', resp_text = ''{"data": []}'',
      resp_json = Inr (JObj [(''data'', JArr [])])\<rparr>\<close>

definition resp_no_payload_key :: http_response where
  \<open>resp_no_payload_key =
     \<lparr>resp_status_code = 200, resp_method = ''GET'', resp_text = ''{"header": {}}'',
      resp_json = Inr (JObj [(''header'', JObj [])])\<rparr>\<close>

definition resp_200_not_json :: http_response where
  "resp_200_not_json =
     \<lparr>resp_status_code = 200, resp_method = ''GET'', resp_text = ''not json'',
      resp_json = Inl ''Expecting value: line 1 column 1 (char 0)''\<rparr>"

definition resp_404_no_error_key :: http_response where
  "resp_404_no_error_key =
     \<lparr>resp_status_code = 404, resp_method = ''GET'', resp_text = ''{}'',
      resp_json = Inr (JObj [])\<rparr>"

definition resp_403_structured :: http_response where
  \<open>resp_403_structured =
     \<lparr>resp_status_code = 403, resp_method = ''GET'',
      resp_text = ''{"error": {"details": "No access", "message": "Forbidden"}}'',
      resp_json = Inr (JObj [(''error'',
        JObj [(''details'', JStr ''No access''), (''message'', JStr ''Forbidden'')])])\<rparr>\<close>

definition resp_404_html :: http_response where
  "resp_404_html =
     \<lparr>resp_status_code = 404, resp_method = ''GET'', resp_text = ''<html>Not Found</html>'',
      resp_json = Inl ''Expecting value: line 1 column 1 (char 0)''\<rparr>"

definition resp_500_error_text :: http_response where
  \<open>resp_500_error_text =
     \<lparr>resp_status_code = 500, resp_method = ''GET'',
      resp_text = ''{"error": "Internal error"}'',
      resp_json = Inr (JObj [(''error'', JStr ''Internal error'')])\<rparr>\<close>

definition resp_json_array :: http_response where
  "resp_json_array =
     \<lparr>resp_status_code = 200, resp_method = ''GET'', resp_text = ''[1]'',
      resp_json = Inr (JArr [JInt 1])\<rparr>"

definition resp_401 :: http_response where
  "resp_401 =
     \<lparr>resp_status_code = 401, resp_method = ''GET'', resp_text = ''Unauthorized'',
      resp_json = Inl ''Expecting value: line 1 column 1 (char 0)''\<rparr>"

text \<open>
  The answer of the backend to a login with bad credentials: status 200 and the HTML
  login page, which is no JSON document.
\<close>

definition resp_login_page :: http_response where
  "resp_login_page =
     \<lparr>resp_status_code = 200, resp_method = ''POST'',
      resp_text = ''<html><body>Login</body></html>'',
      resp_json = Inl ''Expecting value: line 1 column 1 (char 0)''\<rparr>"

definition sample_client :: "(request \<Rightarrow> pyexc + http_response) \<Rightarrow> viptela" where
  "sample_client network =
     \<lparr>user = ''admin'', user_pass = ''secret'', vmanage_server = ''vmanage.example'',
      vmanage_server_port = 8443, verify = False, timeout = 10, disable_warnings = False,
      auto_login = False, base_url = ''https://vmanage.example:8443/dataservice'',
      session = \<lparr>sess_verify = False, transport = network, sent = []\<rparr>,
      login_result = None\<rparr>"

section \<open>Facts about the tables and the sequencing\<close>

lemma exc_bind_Inl [simp]: "exc_bind (Inl e) f = Inl e"
  by (simp add: exc_bind_def)

lemma exc_bind_Inr [simp]: "exc_bind (Inr x) f = f x"
  by (simp add: exc_bind_def)

lemma exc_bind_eq_Inr: "exc_bind m f = Inr y \<longleftrightarrow> (\<exists>x. m = Inr x \<and> f x = Inr y)"
  by (cases m) simp_all

lemma success_code_None: "HTTP_SUCCESS_CODES c = None \<longleftrightarrow> c \<noteq> 200"
  by (simp add: HTTP_SUCCESS_CODES_def)

lemma error_code_None:
  "HTTP_ERROR_CODES c = None \<longleftrightarrow> c \<notin> {400, 403, 404, 406, 415, 500}"
  by (simp add: HTTP_ERROR_CODES_def)

lemma code_phrase_200: "code_phrase 200 = Inr (JStr ''Success'')"
  by (simp add: code_phrase_def HTTP_RESPONSE_CODES_def HTTP_SUCCESS_CODES_def
      HTTP_ERROR_CODES_def map_add_def)

lemma code_phrase_error: "HTTP_ERROR_CODES c = Some p \<Longrightarrow> code_phrase c = Inr (JStr p)"
  by (simp add: code_phrase_def HTTP_RESPONSE_CODES_def map_add_def)

lemma error_code_not_ok:
  "resp_status_code resp \<in> {400, 403, 404, 406, 415, 500} \<Longrightarrow> resp_ok resp = False"
  by (auto simp: resp_ok_def)

section \<open>The success flag follows the status\<close>

lemma parse_http_success_carries:
  "parse_http_success resp = Inr res \<Longrightarrow>
     ok res = resp_ok resp \<and> status_code res = resp_status_code resp \<and> response res = resp"
  unfolding parse_http_success_def
  by (auto simp: exc_bind_eq_Inr Result_def split: if_splits)

lemma parse_http_error_carries:
  "parse_http_error resp = Inr res \<Longrightarrow>
     ok res = resp_ok resp \<and> status_code res = resp_status_code resp \<and> response res = resp"
  unfolding parse_http_error_def
  by (auto simp: exc_bind_eq_Inr Result_def split: sum.splits pyexc.splits prod.splits)

text \<open>
  What holds of every Result that \<open>parse_response\<close> returns on a status of the two
  tables: the \<open>ok\<close> flag is true exactly when the status is 200. Whether a Result is
  returned at all is another matter, taken up next.
\<close>

lemma returned_result_ok_iff_200:
  assumes "resp_status_code resp \<in> {200} \<union> {400, 403, 404, 406, 415, 500}"
    and "parse_response resp = Inr ro"
  shows "\<exists>res. ro = Some res \<and> (ok res \<longleftrightarrow> resp_status_code resp = 200)
           \<and> (resp_status_code resp \<in> {400, 403, 404, 406, 415, 500} \<longrightarrow> \<not> ok res)"
proof (cases "resp_status_code resp = 200")
  case True
  with assms(2) obtain res where r: "parse_http_success resp = Inr res" "ro = Some res"
    by (auto simp: parse_response_def exc_bind_eq_Inr success_code_None)
  from parse_http_success_carries[OF r(1)] True have "ok res"
    by (simp add: resp_ok_def)
  with r True show ?thesis by simp
next
  case False
  with assms(1) have e: "resp_status_code resp \<in> {400, 403, 404, 406, 415, 500}"
    by simp
  with False assms(2) obtain res where r: "parse_http_error resp = Inr res" "ro = Some res"
    by (auto simp: parse_response_def exc_bind_eq_Inr success_code_None error_code_None)
  from parse_http_error_carries[OF r(1)] e have "\<not> ok res"
    by (simp add: error_code_not_ok)
  with r False show ?thesis by simp
qed

text \<open>
  Claim C1 says that every response with one of the six error statuses yields a Result with
  \<open>ok = False\<close>. The code yields no Result on such a response when the body is JSON
  without the expected shape: on status 404 with the body \<^verbatim>\<open>{}\<close> the lookup of
  \<open>error\<close> raises \<^verbatim>\<open>KeyError\<close>, and on status 500 with the body
  \<^verbatim>\<open>{"error": "Internal error"}\<close> the lookup of \<open>details\<close> in a string raises
  \<^verbatim>\<open>TypeError\<close>; the handler of \<open>parse_http_error\<close> catches \<^verbatim>\<open>ValueError\<close> only,
  so the exception leaves \<open>parse_response\<close>.
\<close>

theorem error_status_yields_no_result:
  "resp_status_code resp_404_no_error_key \<in> {400, 403, 404, 406, 415, 500}
   \<and> parse_response resp_404_no_error_key = Inl (KeyError (JStr ''error''))
   \<and> resp_status_code resp_500_error_text \<in> {400, 403, 404, 406, 415, 500}
   \<and> parse_response resp_500_error_text = Inl TypeError"
  by (simp add: resp_404_no_error_key_def resp_500_error_text_def parse_response_def
      success_code_None error_code_None parse_http_error_def error_fields_def
      response_json_def)

section \<open>Success-shape extraction\<close>

text \<open>
  Claim C2, as the code has it. For a response with status 200 and method GET whose body
  decodes to a JSON object with the key \<open>data\<close>, the Result has \<open>ok = True\<close> and
  \<open>data\<close> equal to that value, provided the value is truthy for Python: the code tests
  \<^verbatim>\<open>response.json().get('data')\<close> in an \<^verbatim>\<open>if\<close>.
\<close>

theorem get_data_truthy:
  assumes "resp_status_code resp = 200" and "resp_method resp = ''GET''"
    and "resp_json resp = Inr (JObj kvs)" and "map_of kvs ''data'' = Some X"
    and "truthy X"
  shows "parse_response resp =
           Inr (Some (Result True 200 (JStr ''Success'') (ErrVal (JStr '''')) X resp))"
  using assms
  by (simp add: parse_response_def success_code_None parse_http_success_def code_phrase_200
      response_json_def resp_ok_def)

theorem get_data_truthy_witness:
  "truthy (JArr [JInt 1]) \<and>
   parse_response resp_data_list = Inr (Some
     (Result True 200 (JStr ''Success'') (ErrVal (JStr '''')) (JArr [JInt 1]) resp_data_list))"
  using get_data_truthy [of resp_data_list "[(''data'', JArr [JInt 1])]" "JArr [JInt 1]"]
  by (simp add: resp_data_list_def)

text \<open>
  Claim C2 as stated fails for a falsy value: for the body \<^verbatim>\<open>{"data": []}\<close> the Result
  carries the empty mapping and the "no data" error, not the empty list.
\<close>

theorem get_data_empty_list_lost:
  "parse_response resp_data_empty = Inr (Some
     (Result True 200 (JStr ''Success'') (ErrVal (JStr ''No data received from device''))
        (JObj []) resp_data_empty))
   \<and> JObj [] \<noteq> JArr []"
  by (simp add: resp_data_empty_def parse_response_def success_code_None
      parse_http_success_def code_phrase_200 response_json_def resp_ok_def)

text \<open>
  Claim C6 as stated fails for a JSON body that is not an object: the array
  \<^verbatim>\<open>[1]\<close> contains none of the three keys, and the code calls \<^verbatim>\<open>.get\<close> on it, which
  raises \<^verbatim>\<open>AttributeError\<close>; no Result is returned.
\<close>

theorem get_json_array_raises:
  "resp_status_code resp_json_array = 200 \<and> resp_method resp_json_array = ''GET''
   \<and> resp_json resp_json_array = Inr (JArr [JInt 1])
   \<and> parse_response resp_json_array = Inl AttributeError"
  by (simp add: resp_json_array_def parse_response_def success_code_None
      parse_http_success_def code_phrase_200 response_json_def)

text \<open>
  Claim C6, as the code has it. For a response with status 200 and method GET whose body
  decodes to a JSON object with none of the keys \<open>data\<close>, \<open>config\<close>,
  \<open>templateDefinition\<close>, the Result has \<open>ok = True\<close>, the empty mapping as \<open>data\<close> and
  the non-empty error string \<open>No data received from device\<close>.
\<close>

theorem get_no_payload_key:
  assumes "resp_status_code resp = 200" and "resp_method resp = ''GET''"
    and "resp_json resp = Inr (JObj kvs)"
    and "map_of kvs ''data'' = None" and "map_of kvs ''config'' = None"
    and "map_of kvs ''templateDefinition'' = None"
  shows "parse_response resp = Inr (Some
           (Result True 200 (JStr ''Success'') (ErrVal (JStr ''No data received from device''))
              (JObj []) resp))
         \<and> ''No data received from device'' \<noteq> ''''"
  using assms
  by (simp add: parse_response_def success_code_None parse_http_success_def code_phrase_200
      response_json_def resp_ok_def)

theorem get_no_payload_key_witness:
  "parse_response resp_no_payload_key = Inr (Some
     (Result True 200 (JStr ''Success'') (ErrVal (JStr ''No data received from device''))
        (JObj []) resp_no_payload_key))"
  using get_no_payload_key [of resp_no_payload_key "[(''header'', JObj [])]"]
  by (simp add: resp_no_payload_key_def)

section \<open>Error-shape extraction\<close>

text \<open>
  Claim C4. For a response with status in 400, 403, 404, 406, 415, 500 whose body decodes
  to a JSON object holding, under \<open>error\<close>, an object with \<open>details\<close> D and \<open>message\<close> M,
  the Result has \<open>ok = False\<close>, \<open>reason = D\<close> and \<open>error = M\<close>.
\<close>

theorem error_structured:
  assumes "resp_status_code resp \<in> {400, 403, 404, 406, 415, 500}"
    and "resp_json resp = Inr (JObj kvs)" and "map_of kvs ''error'' = Some (JObj e)"
    and "map_of e ''details'' = Some D" and "map_of e ''message'' = Some M"
  shows "parse_response resp =
           Inr (Some (Result False (resp_status_code resp) D (ErrVal M) (JObj []) resp))"
proof -
  have "error_fields resp = Inr (D, M)"
    using assms(2-5) by (simp add: error_fields_def response_json_def)
  then have "parse_http_error resp =
      Inr (Result (resp_ok resp) (resp_status_code resp) D (ErrVal M) (JObj []) resp)"
    by (simp add: parse_http_error_def)
  moreover have "resp_ok resp = False"
    using assms(1) by (rule error_code_not_ok)
  moreover have "HTTP_SUCCESS_CODES (resp_status_code resp) = None"
    using assms(1) by (auto simp: success_code_None)
  moreover have "HTTP_ERROR_CODES (resp_status_code resp) \<noteq> None"
    using assms(1) by (simp only: error_code_None simp_thms)
  ultimately show ?thesis by (simp add: parse_response_def)
qed

theorem error_structured_witness:
  "parse_response resp_403_structured = Inr (Some
     (Result False 403 (JStr ''No access'') (ErrVal (JStr ''Forbidden'')) (JObj [])
        resp_403_structured))"
  using error_structured [of resp_403_structured
      "[(''error'', JObj [(''details'', JStr ''No access''), (''message'', JStr ''Forbidden'')])]"
      "[(''details'', JStr ''No access''), (''message'', JStr ''Forbidden'')]"
      "JStr ''No access''" "JStr ''Forbidden''"]
  by (simp add: resp_403_structured_def)

lemma error_branch_not_json:
  assumes "HTTP_ERROR_CODES (resp_status_code resp) = Some phrase"
    and "resp_json resp = Inl msg"
  shows "parse_response resp = Inr (Some
           (Result False (resp_status_code resp) (JStr phrase) (ErrExc (ValueError msg))
              (JObj []) resp))"
proof -
  have e: "resp_status_code resp \<in> {400, 403, 404, 406, 415, 500}"
    using assms(1) error_code_None[of "resp_status_code resp"] by auto
  have "error_fields resp = Inl (ValueError msg)"
    using assms(2) by (simp add: error_fields_def response_json_def)
  then have "parse_http_error resp =
      Inr (Result (resp_ok resp) (resp_status_code resp) (JStr phrase)
             (ErrExc (ValueError msg)) (JObj []) resp)"
    using assms(1) by (simp add: parse_http_error_def code_phrase_error)
  moreover have "resp_ok resp = False"
    using e by (rule error_code_not_ok)
  moreover have "HTTP_SUCCESS_CODES (resp_status_code resp) = None"
    using e by (auto simp: success_code_None)
  ultimately show ?thesis using assms(1) by (simp add: parse_response_def)
qed

text \<open>
  Claim C5. For a response with status in the error table whose body does not decode as
  JSON, the Result has \<open>ok = False\<close>, \<open>reason\<close> equal to the table's phrase for the
  status, \<open>error\<close> equal to the decoder's exception, and the empty mapping as \<open>data\<close>.
\<close>

theorem error_not_json:
  assumes "HTTP_ERROR_CODES (resp_status_code resp) = Some phrase"
    and "resp_json resp = Inl msg"
  shows "parse_response resp = Inr (Some
           (Result False (resp_status_code resp) (JStr phrase) (ErrExc (ValueError msg))
              (JObj []) resp))"
  using assms by (rule error_branch_not_json)

theorem error_not_json_witness:
  "HTTP_ERROR_CODES 404 = Some ''API Not found'' \<and>
   parse_response resp_404_html = Inr (Some
     (Result False 404 (JStr ''API Not found'')
        (ErrExc (ValueError ''Expecting value: line 1 column 1 (char 0)'')) (JObj [])
        resp_404_html))"
  using error_not_json [of resp_404_html "''API Not found''"
      "''Expecting value: line 1 column 1 (char 0)''"]
  by (simp add: resp_404_html_def HTTP_ERROR_CODES_def)

section \<open>Exceptions that leave the normalizer\<close>

text \<open>
  Claim C3 says that the normalizer never raises on a classified status. The code raises
  on both inputs the claim names: on a 200 GET response with a body that is not JSON the
  decoder's \<^verbatim>\<open>ValueError\<close> leaves \<open>parse_http_success\<close>, which has no handler, and on a
  404 response with the body \<^verbatim>\<open>{}\<close> the \<^verbatim>\<open>KeyError\<close> of the missing \<open>error\<close> key
  passes the handler of \<open>parse_http_error\<close>, which catches \<^verbatim>\<open>ValueError\<close> only.
\<close>

theorem parse_response_raises:
  "parse_response resp_200_not_json = Inl (ValueError ''Expecting value: line 1 column 1 (char 0)'')
   \<and> parse_response resp_404_no_error_key = Inl (KeyError (JStr ''error''))"
  by (simp add: resp_200_not_json_def resp_404_no_error_key_def parse_response_def
      success_code_None error_code_None parse_http_success_def parse_http_error_def
      error_fields_def code_phrase_200 response_json_def)

section \<open>Unclassified statuses\<close>

text \<open>
  Claim C10. For a response whose status is neither 200 nor one of 400, 403, 404, 406,
  415, 500, \<open>parse_response\<close> returns \<^verbatim>\<open>None\<close>, no Result.
\<close>

theorem parse_response_unclassified:
  "resp_status_code resp \<notin> {200} \<union> {400, 403, 404, 406, 415, 500}
   \<Longrightarrow> parse_response resp = Inr None"
  by (simp add: parse_response_def success_code_None error_code_None)

theorem parse_response_unclassified_witness:
  "resp_status_code resp_401 \<notin> {200} \<union> {400, 403, 404, 406, 415, 500}
   \<and> parse_response resp_401 = Inr None"
  using parse_response_unclassified [of resp_401]
  by (simp add: resp_401_def)

section \<open>The verb dispatchers\<close>

text \<open>
  Claim C9. The delete dispatcher issues no HTTP call and returns \<^verbatim>\<open>None\<close>, for every
  input: the session is unchanged. Each of the other four (get, put, post, upload) adds
  exactly one call to the session, with its own verb, and returns what the normalizer
  makes of the answer to that call.
\<close>

theorem delete_is_stub_others_call_once:
  "Viptela_delete s url hdrs dat tmo = (s, Inr None)
   \<and> (let rq = \<lparr>req_verb = ''GET'', req_url = url,
                 req_headers = (case hdrs of None \<Rightarrow> default_headers | Some h \<Rightarrow> h),
                 req_data = None, req_files = None, req_timeout = tmo\<rparr>
      in Viptela_get s url hdrs tmo =
           (s\<lparr>sent := sent s @ [rq]\<rparr>, exc_bind (transport s rq) parse_response))
   \<and> (let rq = \<lparr>req_verb = ''PUT'', req_url = url,
                 req_headers = (case hdrs of None \<Rightarrow> default_headers | Some h \<Rightarrow> h),
                 req_data = Some (case dat of None \<Rightarrow> Mapping [] | Some d \<Rightarrow> d),
                 req_files = None, req_timeout = tmo\<rparr>
      in Viptela_put s url hdrs dat tmo =
           (s\<lparr>sent := sent s @ [rq]\<rparr>, exc_bind (transport s rq) parse_response))
   \<and> (let rq = \<lparr>req_verb = ''POST'', req_url = url,
                 req_headers = (case hdrs of None \<Rightarrow> default_headers | Some h \<Rightarrow> h),
                 req_data = Some (case dat of None \<Rightarrow> Mapping [] | Some d \<Rightarrow> d),
                 req_files = None, req_timeout = tmo\<rparr>
      in Viptela_post s url hdrs dat tmo =
           (s\<lparr>sent := sent s @ [rq]\<rparr>, exc_bind (transport s rq) parse_response))
   \<and> (let rq = \<lparr>req_verb = ''POST'', req_url = url,
                 req_headers =
                   (case hdrs of None \<Rightarrow> [(''Accept-Encoding'', ''gzip'')] | Some h \<Rightarrow> h),
                 req_data = None, req_files = Some files, req_timeout = tmo\<rparr>
      in Viptela_upload s url files hdrs dat tmo =
           (s\<lparr>sent := sent s @ [rq]\<rparr>, exc_bind (transport s rq) parse_response))"
  by (simp add: Viptela_delete_def Viptela_get_def Viptela_put_def Viptela_post_def
      Viptela_upload_def session_call_def Let_def)

theorem delete_is_stub_others_call_once_witness:
  "Viptela_delete (session (sample_client (\<lambda>rq. Inr resp_401))) ''u'' None None 10 =
     (session (sample_client (\<lambda>rq. Inr resp_401)), Inr None)
   \<and> length (sent (fst (Viptela_get (session (sample_client (\<lambda>rq. Inr resp_401)))
                        ''u'' None 10))) = 1"
  using delete_is_stub_others_call_once
    [of "session (sample_client (\<lambda>rq. Inr resp_401))" "''u''" None None 10 "[]"]
  by (simp add: Let_def sample_client_def)

section \<open>Validation of the device type\<close>

text \<open>
  Claim C8. \<open>get_device_by_type\<close> accepts exactly \<open>vedges\<close> and \<open>controllers\<close>: for any
  other argument it raises \<^verbatim>\<open>ValueError\<close> and leaves the client, and so the list of
  issued calls, as it was; for these two it issues one GET to the device URL of that type
  and returns what the normalizer makes of the answer.
\<close>

theorem get_device_by_type_validates:
  "(device_type \<notin> {''vedges'', ''controllers''} \<longrightarrow>
      get_device_by_type self device_type =
        (self, Inl (ValueError (''Invalid device type: '' @ device_type))))
   \<and> (device_type \<in> {''vedges'', ''controllers''} \<longrightarrow>
      (let rq = \<lparr>req_verb = ''GET'',
                 req_url = base_url self @ ''/system/device/'' @ device_type,
                 req_headers = default_headers, req_data = None, req_files = None,
                 req_timeout = 10\<rparr>
       in get_device_by_type self device_type =
            (self\<lparr>session := (session self)\<lparr>sent := sent (session self) @ [rq]\<rparr>\<rparr>,
             exc_bind (transport (session self) rq) parse_response)))"
  by (auto simp: get_device_by_type_def Viptela_get_def session_call_def Let_def)

theorem get_device_by_type_validates_witness:
  "get_device_by_type (sample_client (\<lambda>rq. Inr resp_401)) ''foo'' =
     (sample_client (\<lambda>rq. Inr resp_401), Inl (ValueError ''Invalid device type: foo''))
   \<and> sent (session (fst (get_device_by_type (sample_client (\<lambda>rq. Inr resp_401)) ''vedges''))) =
     [\<lparr>req_verb = ''GET'',
       req_url = ''https://vmanage.example:8443/dataservice/system/device/vedges'',
       req_headers = default_headers, req_data = None, req_files = None, req_timeout = 10\<rparr>]
   \<and> sent (session (fst (get_device_by_type (sample_client (\<lambda>rq. Inr resp_401))
                           ''controllers''))) =
     [\<lparr>req_verb = ''GET'',
       req_url = ''https://vmanage.example:8443/dataservice/system/device/controllers'',
       req_headers = default_headers, req_data = None, req_files = None, req_timeout = 10\<rparr>]"
  using get_device_by_type_validates [of "''foo''" "sample_client (\<lambda>rq. Inr resp_401)"]
    get_device_by_type_validates [of "''vedges''" "sample_client (\<lambda>rq. Inr resp_401)"]
    get_device_by_type_validates [of "''controllers''" "sample_client (\<lambda>rq. Inr resp_401)"]
  by (simp add: Let_def sample_client_def)

section \<open>Login\<close>

text \<open>
  What \<open>login\<close> does once the post has been answered and the normalizer has returned a
  Result: the HTML test decides between the credentials error and that Result.
\<close>

lemma login_outcome:
  assumes "transport (session self)
             \<lparr>req_verb = ''POST'', req_url = base_url self @ ''/j_security_check'',
              req_headers = [(''Content-Type'', ''application/x-www-form-urlencoded'')],
              req_data = Some (Mapping [(''j_username'', user self),
                                        (''j_password'', user_pass self)]),
              req_files = None, req_timeout = timeout self\<rparr> = Inr resp"
    and "parse_response resp = Inr (Some res)"
  shows "snd (login self) =
           (if prefix ''<html>'' (resp_text resp)
            then Inl (LoginCredentialsError ''Could not login to device, check user credentials'')
            else Inr res)"
proof -
  have "response res = resp"
    using assms(2)
    by (auto simp: parse_response_def exc_bind_eq_Inr split: if_splits
        dest: parse_http_success_carries parse_http_error_carries)
  then show ?thesis
    using assms by (simp add: login_def Viptela_post_def session_call_def Let_def)
qed

text \<open>
  On an error status the HTML page is caught as the claim says: the handler of
  \<open>parse_http_error\<close> absorbs the decoder's exception, and the test on the body follows.
\<close>

lemma login_html_error_status:
  assumes "transport (session self)
             \<lparr>req_verb = ''POST'', req_url = base_url self @ ''/j_security_check'',
              req_headers = [(''Content-Type'', ''application/x-www-form-urlencoded'')],
              req_data = Some (Mapping [(''j_username'', user self),
                                        (''j_password'', user_pass self)]),
              req_files = None, req_timeout = timeout self\<rparr> = Inr resp"
    and "HTTP_ERROR_CODES (resp_status_code resp) = Some phrase"
    and "resp_json resp = Inl msg" and "prefix ''<html>'' (resp_text resp)"
  shows "snd (login self) =
           Inl (LoginCredentialsError ''Could not login to device, check user credentials'')"
  using login_outcome [OF assms(1) error_branch_not_json [OF assms(2,3)]] assms(4) by simp

lemma login_connection_error:
  assumes "transport (session self)
             \<lparr>req_verb = ''POST'', req_url = base_url self @ ''/j_security_check'',
              req_headers = [(''Content-Type'', ''application/x-www-form-urlencoded'')],
              req_data = Some (Mapping [(''j_username'', user self),
                                        (''j_password'', user_pass self)]),
              req_files = None, req_timeout = timeout self\<rparr> = Inl ConnectionError"
  shows "snd (login self) =
           Inl (LoginTimeoutError (''Could not connect to '' @ vmanage_server self))"
  using assms by (simp add: login_def Viptela_post_def session_call_def Let_def)

text \<open>
  Claim C7 says that a login answered with a body that starts with \<^verbatim>\<open><html>\<close> raises the
  invalid-credentials error, also on status 200. On status 200 the code does not reach its
  test of the body: the post is answered with the HTML login page, \<open>parse_http_success\<close>
  takes the branch for a non-GET request with a non-empty body and calls the JSON decoder
  on the page, and the decoder's \<^verbatim>\<open>ValueError\<close> leaves \<open>login\<close>, whose handler catches
  \<^verbatim>\<open>ConnectionError\<close> only.
\<close>

theorem login_html_200_raises_ValueError:
  "prefix ''<html>'' (resp_text resp_login_page)
   \<and> resp_status_code resp_login_page = 200
   \<and> snd (login (sample_client (\<lambda>rq. Inr resp_login_page)))
       = Inl (ValueError ''Expecting value: line 1 column 1 (char 0)'')"
  by (simp add: login_def sample_client_def Viptela_post_def session_call_def Let_def
      resp_login_page_def parse_response_def success_code_None parse_http_success_def
      code_phrase_200 response_json_def)

end
